theory Spec2Isabelle
  imports Main "HOL-Library.AList"
begin

section \<open>JavaScript values\<close>

text \<open>
  The dispatcher of \<^verbatim>\<open>src/HttpBase.ts\<close> tests several of its inputs twice: once for
  truthiness (\<^verbatim>\<open>if (showError)\<close>) and once for being \<^verbatim>\<open>undefined\<close>
  (\<^verbatim>\<open>showError === undefined\<close>). An optional value therefore has three states:
  \<open>Undefined\<close> (not supplied), \<open>Null\<close> (supplied, but a falsy value such as
  \<^verbatim>\<open>null\<close>) and \<open>Val x\<close> (supplied).
\<close>

datatype 'a js = Undefined | Null | Val 'a

text \<open>Truthiness of an object or function value: every object is truthy.\<close>

fun truthy :: "'a js \<Rightarrow> bool" where
  "truthy (Val _) = True"
| "truthy _ = False"

text \<open>Truthiness of a boolean-typed field: \<^verbatim>\<open>false\<close> is falsy as well.\<close>

fun truthy_bool :: "bool js \<Rightarrow> bool" where
  "truthy_bool (Val b) = b"
| "truthy_bool _ = False"

text \<open>
  \<^verbatim>\<open>a || b\<close> for a number-typed \<open>a\<close>: \<^verbatim>\<open>0\<close> is falsy as well.
\<close>

fun or_num :: "nat js \<Rightarrow> nat \<Rightarrow> nat" where
  "or_num (Val n) b = (if n \<noteq> 0 then n else b)"
| "or_num _ b = b"

text \<open>
  A function value supplied by the host application. Its body is outside the repository;
  a call to it is recorded as an event (see \<open>event\<close> below) and is taken to return
  normally.
\<close>

datatype fn = Fn

text \<open>
  Opaque JSON values (request body, query parameters, response data) are carried
  around untouched by the dispatcher; they are represented by their text.
\<close>

type_synonym json = string

section \<open>Data model\<close>

text \<open>
  The interfaces that \<^verbatim>\<open>HttpBase.ts\<close> imports (\<^verbatim>\<open>ILoading\<close>, \<^verbatim>\<open>ZyWebRes\<close>,
  \<^verbatim>\<open>ServerException\<close>, \<^verbatim>\<open>HeaderType\<close>, \<^verbatim>\<open>IHttpGlobalConfig\<close>,
  \<^verbatim>\<open>IHttpOptions\<close>) are declared in files that are not among the sources. Each is
  given here with the fields that \<^verbatim>\<open>HttpBase.ts\<close> reads, as the data model of the
  specification lists them.
\<close>

text \<open>
  Modelled from the spec: the interface \<^verbatim>\<open>ILoading\<close>, the duck-typed loading
  indicator: an object with an optional \<^verbatim>\<open>show\<close> and an optional \<^verbatim>\<open>hide\<close>
  method.
\<close>

record ILoading =
  loading_show :: "fn js"
  loading_hide :: "fn js"

text \<open>
  Modelled from the spec: the interface \<^verbatim>\<open>ZyWebRes\<close>, the response envelope
  \<^verbatim>\<open>{code, msg, data}\<close>. It is also the
  payload of a \<^verbatim>\<open>ServerException\<close>; the exceptions that \<^verbatim>\<open>handleError\<close>
  synthesises carry \<^verbatim>\<open>{code, msg}\<close> only, which is \<open>data = None\<close>.
\<close>

record ZyWebRes =
  code :: string
  msg :: string
  data :: "json option"

text \<open>
  Modelled from the spec: the class \<^verbatim>\<open>ServerException\<close>, the structured exception
  that wraps an envelope (\<^verbatim>\<open>err.payload\<close>). The type \<open>thrown\<close> is what a
  \<^verbatim>\<open>catch\<close> clause of the dispatcher can receive. \<open>ServerException\<close> is an
  instance of that class. \<open>ErrorObject\<close> is any other value
  whose properties can be read: the transport's error objects, with the three
  properties \<^verbatim>\<open>handleError\<close> looks at (\<^verbatim>\<open>err.response\<close> and, inside it,
  \<^verbatim>\<open>status\<close>; \<^verbatim>\<open>err.code\<close>; \<^verbatim>\<open>err.message\<close>). \<open>Nullish\<close> is
  \<^verbatim>\<open>undefined\<close> or \<^verbatim>\<open>null\<close>, which a promise may be rejected with and whose
  properties cannot be read.
\<close>

record Response =
  status :: "nat option"

record Err =
  err_response :: "Response js"
  err_code :: "string option"
  err_message :: "string option"

datatype thrown = ServerException ZyWebRes | ErrorObject Err | Nullish

text \<open>
  The \<^verbatim>\<open>TypeError\<close> that the JavaScript engine raises when a property of
  \<^verbatim>\<open>undefined\<close> or \<^verbatim>\<open>null\<close> is read. It is an ordinary error object without
  \<^verbatim>\<open>response\<close> and \<^verbatim>\<open>code\<close>; its message is the engine's own text.
\<close>

definition TypeError :: thrown where
  "TypeError =
     ErrorObject \<lparr>err_response = Undefined, err_code = None,
       err_message = Some ''Cannot read properties of undefined''\<rparr>"

fun is_ServerException :: "thrown \<Rightarrow> bool" where
  "is_ServerException (ServerException _) = True"
| "is_ServerException _ = False"

text \<open>
  Modelled from the spec: the interface \<^verbatim>\<open>HeaderType\<close>, a header provider (a key, a
  value or a function producing it, and a flag restricting it to post requests).
  \<^verbatim>\<open>token.get\<close> is either a plain string or a function. Calling the function
  (\<^verbatim>\<open>getMethod()\<close> in \<^verbatim>\<open>getToken\<close>) throws, returns a plain string, or returns
  a promise. A promise is fulfilled with a string or rejected with a reason, at an
  instant that the host decides: \<open>Promise n r\<close> settles with \<open>r\<close> at instant
  \<open>n\<close>, and promises with the same instant settle in the order of their creation.
\<close>

datatype settled = Fulfilled string | Rejected thrown

datatype getter_outcome = Throws thrown | Returns string | Promise nat settled

datatype token_get = Literal string | Getter getter_outcome

record HeaderType =
  key :: string
  getter :: token_get
  postOnly :: bool

text \<open>
  Modelled from the spec: the interface \<^verbatim>\<open>IHttpGlobalConfig\<close> (base address,
  optional port, default timeout, default error display, default loading indicator,
  header providers, global server-error handler). \<^verbatim>\<open>config.serverPort\<close> is
  interpolated into a template literal after a truthiness test, so it may be a number
  or a string.
\<close>

datatype js_port = PortUndefined | PortNumber nat | PortString string

record IHttpGlobalConfig =
  serverBase :: string
  serverPort :: js_port
  cfg_timeout :: "nat js"
  cfg_showError :: "fn js"
  cfg_loading :: "ILoading js"
  cfg_headers :: "HeaderType list js"
  cfg_handleServerError :: "fn js"

text \<open>
  Modelled from the spec: the interface \<^verbatim>\<open>IHttpOptions\<close> (optional timeout, query
  parameters, error display, loading indicator, and the flag to skip the global
  server-error handler).
\<close>

record IHttpOptions =
  opt_timeout :: "nat js"
  opt_params :: "json js"
  opt_showError :: "fn js"
  opt_loading :: "ILoading js"
  skipServerErrorHandler :: "bool js"

text \<open>The class \<^verbatim>\<open>HttpBase\<close>: its two fields.\<close>

record HttpBase =
  serverFullPath :: string
  config :: IHttpGlobalConfig

text \<open>\<^verbatim>\<open>AxiosRequestConfig\<close>, as far as \<^verbatim>\<open>httpBase\<close> fills it in.\<close>

record AxiosRequestConfig =
  req_method :: string
  req_url :: string
  req_timeout :: nat
  withCredentials :: bool
  req_headers :: "(string \<times> string) list"
  req_params :: "json js"
  req_data :: "json js"

text \<open>
  What \<^verbatim>\<open>await Axios.request(httpOptions)\<close> does: it resolves with a response whose
  body \<^verbatim>\<open>res.data\<close> is an envelope (or is missing), or it rejects.
\<close>

datatype axios_result = Resolves "ZyWebRes js" | Rejects thrown

text \<open>
  The observable effects of a call, in the order they happen. \<open>PerCall\<close> and
  \<open>Global\<close> say whose callback ran: the one from the call's options or the one
  from the global configuration.
\<close>

datatype origin = PerCall | Global

datatype event =
    ErrorShown origin string
  | LoadingShown origin
  | LoadingHidden origin
  | ServerErrorHandled ZyWebRes
  | Requested AxiosRequestConfig

section \<open>The class HttpBase\<close>

subsection \<open>Constructor\<close>

text \<open>
  Decimal text of a number, as a template literal renders it. (This is the rendering of
  integers below \<open>10\<^sup>2\<^sup>1\<close>, which every port number is.)
\<close>

fun number_text :: "nat \<Rightarrow> string" where
  "number_text n =
     (if n < 10 then [''0123456789'' ! n]
      else number_text (n div 10) @ [''0123456789'' ! (n mod 10)])"

fun truthy_port :: "js_port \<Rightarrow> bool" where
  "truthy_port PortUndefined = False"
| "truthy_port (PortNumber n) = (n \<noteq> 0)"
| "truthy_port (PortString s) = (s \<noteq> [])"

fun port_text :: "js_port \<Rightarrow> string" where
  "port_text PortUndefined = ''undefined''"
| "port_text (PortNumber n) = number_text n"
| "port_text (PortString s) = s"

definition constructor :: "IHttpGlobalConfig \<Rightarrow> HttpBase" where
  "constructor cfg =
     \<lparr>serverFullPath =
        (if truthy_port (serverPort cfg)
         then serverBase cfg @ '':'' @ port_text (serverPort cfg) @ ''/''
         else serverBase cfg),
      config = cfg\<rparr>"

subsection \<open>showError, showLoading, hideLoading\<close>

definition showError :: "HttpBase \<Rightarrow> string \<Rightarrow> fn js \<Rightarrow> event list" where
  "showError this m showErr =
     (if truthy showErr then [ErrorShown PerCall m]
      else if showErr = Undefined \<and> truthy (cfg_showError (config this))
        then [ErrorShown Global m]
      else [])"

text \<open>\<^verbatim>\<open>loading && loading.show\<close>, and \<^verbatim>\<open>loading && loading.hide\<close>.\<close>

fun has_show :: "ILoading js \<Rightarrow> bool" where
  "has_show (Val l) = truthy (loading_show l)"
| "has_show _ = False"

fun has_hide :: "ILoading js \<Rightarrow> bool" where
  "has_hide (Val l) = truthy (loading_hide l)"
| "has_hide _ = False"

text \<open>\<^verbatim>\<open>loading && loading.show === undefined\<close>.\<close>

fun show_undefined :: "ILoading js \<Rightarrow> bool" where
  "show_undefined (Val l) = (loading_show l = Undefined)"
| "show_undefined _ = False"

definition showLoading :: "HttpBase \<Rightarrow> ILoading js \<Rightarrow> event list" where
  "showLoading this loading =
     (if has_show loading then [LoadingShown PerCall]
      else if (loading = Undefined \<or> show_undefined loading)
          \<and> has_show (cfg_loading (config this))
        then [LoadingShown Global]
      else [])"

text \<open>
  As in the source, the fallback test of \<^verbatim>\<open>hideLoading\<close> reads
  \<^verbatim>\<open>loading.show === undefined\<close>, not \<^verbatim>\<open>loading.hide === undefined\<close>.
\<close>

definition hideLoading :: "HttpBase \<Rightarrow> ILoading js \<Rightarrow> event list" where
  "hideLoading this loading =
     (if has_hide loading then [LoadingHidden PerCall]
      else if (loading = Undefined \<or> show_undefined loading)
          \<and> has_hide (cfg_loading (config this))
        then [LoadingHidden Global]
      else [])"

subsection \<open>handleError\<close>

text \<open>
  The user-facing messages of the source are Chinese text; they are given here by
  their UTF-8 bytes. In order: U+672A U+77E5 U+9519 U+8BEF (unknown error);
  U+670D U+52A1 U+5668 U+5185 U+90E8 U+9519 U+8BEF (server internal error);
  "URL" U+627E U+4E0D U+5230 (URL not found); U+7F51 U+7EDC U+8D85 U+65F6 (network
  timeout); U+65E0 U+7F51 U+7EDC "," " " U+8BF7 U+68C0 U+67E5 U+60A8 U+7684 U+7F51
  U+7EDC U+8FDE U+63A5 (no network, check your connection).
\<close>

definition msg_unknown :: string where
  "msg_unknown =
     [CHR 0xE6, CHR 0x9C, CHR 0xAA, CHR 0xE7, CHR 0x9F, CHR 0xA5,
      CHR 0xE9, CHR 0x94, CHR 0x99, CHR 0xE8, CHR 0xAF, CHR 0xAF]"

definition msg_server_internal :: string where
  "msg_server_internal =
     [CHR 0xE6, CHR 0x9C, CHR 0x8D, CHR 0xE5, CHR 0x8A, CHR 0xA1, CHR 0xE5, CHR 0x99,
      CHR 0xA8, CHR 0xE5, CHR 0x86, CHR 0x85, CHR 0xE9, CHR 0x83, CHR 0xA8, CHR 0xE9,
      CHR 0x94, CHR 0x99, CHR 0xE8, CHR 0xAF, CHR 0xAF]"

definition msg_not_found :: string where
  "msg_not_found =
     ''URL'' @ [CHR 0xE6, CHR 0x89, CHR 0xBE, CHR 0xE4, CHR 0xB8, CHR 0x8D,
       CHR 0xE5, CHR 0x88, CHR 0xB0]"

definition msg_timeout :: string where
  "msg_timeout =
     [CHR 0xE7, CHR 0xBD, CHR 0x91, CHR 0xE7, CHR 0xBB, CHR 0x9C,
      CHR 0xE8, CHR 0xB6, CHR 0x85, CHR 0xE6, CHR 0x97, CHR 0xB6]"

definition msg_no_network :: string where
  "msg_no_network =
     [CHR 0xE6, CHR 0x97, CHR 0xA0, CHR 0xE7, CHR 0xBD, CHR 0x91, CHR 0xE7, CHR 0xBB,
      CHR 0x9C] @ '', '' @
     [CHR 0xE8, CHR 0xAF, CHR 0xB7, CHR 0xE6, CHR 0xA3, CHR 0x80, CHR 0xE6, CHR 0x9F,
      CHR 0xA5, CHR 0xE6, CHR 0x82, CHR 0xA8, CHR 0xE7, CHR 0x9A, CHR 0x84, CHR 0xE7,
      CHR 0xBD, CHR 0x91, CHR 0xE7, CHR 0xBB, CHR 0x9C, CHR 0xE8, CHR 0xBF, CHR 0x9E,
      CHR 0xE6, CHR 0x8E, CHR 0xA5]"

text \<open>
  \<^verbatim>\<open>err.response && err.response.status !== undefined\<close>: the status, when there
  is one.
\<close>

fun response_status :: "Err \<Rightarrow> nat option" where
  "response_status e = (case err_response e of Val r \<Rightarrow> status r | _ \<Rightarrow> None)"

text \<open>
  Lines 55 to 78: the code and message chosen for an error object. An HTTP status is
  an integer, for which \<^verbatim>\<open>parseInt(status / 100 + '', 10)\<close> is the integer
  quotient (as long as the quotient prints without an exponent, that is for statuses
  below \<open>10\<^sup>2\<^sup>3\<close>). A status outside the families 4 and 5 leaves the defaults in
  place.
\<close>

definition classify :: "Err \<Rightarrow> string \<times> string" where
  "classify e =
     (case response_status e of
        Some s \<Rightarrow>
          (if s div 100 = 5 then (''SERVER_INTERNAL_ERROR'', msg_server_internal)
           else if s div 100 = 4 then (''URL_NOT_FOUND'', msg_not_found)
           else (''UNKNOWN_ERROR'', msg_unknown))
      | None \<Rightarrow>
          (if err_code e = Some ''ECONNABORTED'' then (''ECONNABORTED'', msg_timeout)
           else if err_message e = Some ''Network Error''
             then (''NETWORK_ERROR'', msg_no_network)
           else (''UNKNOWN_ERROR'', msg_unknown)))"

text \<open>
  \<^verbatim>\<open>handleError\<close> never returns: the result is the effects it had and the value
  it throws. For \<^verbatim>\<open>undefined\<close> and \<^verbatim>\<open>null\<close> the test
  \<^verbatim>\<open>err instanceof ServerException\<close> is false and reading \<^verbatim>\<open>err.response\<close>
  raises a \<^verbatim>\<open>TypeError\<close>, before anything is shown.
\<close>

fun handleError :: "HttpBase \<Rightarrow> thrown \<Rightarrow> fn js \<Rightarrow> bool \<Rightarrow> event list \<times> thrown" where
  "handleError this (ServerException payload) showErr skip =
     (showError this (msg payload) showErr
        @ (if \<not> skip \<and> truthy (cfg_handleServerError (config this))
           then [ServerErrorHandled payload] else []),
      ServerException payload)"
| "handleError this Nullish showErr skip = ([], TypeError)"
| "handleError this (ErrorObject e) showErr skip =
     (case classify e of
        (c, m) \<Rightarrow>
          (showError this m showErr, ServerException \<lparr>code = c, msg = m, data = None\<rparr>))"

subsection \<open>httpBase, get, post\<close>

text \<open>
  Lines 122 to 136: the header providers. \<^verbatim>\<open>map\<close> starts one asynchronous callback
  for every provider, in the configured order; a provider whose \<^verbatim>\<open>postOnly\<close> flag
  does not fit the method does nothing. A callback runs up to its first \<^verbatim>\<open>await\<close>
  at once: a plain string is written into the headers there, and a function that throws
  reaches the \<^verbatim>\<open>catch\<close> clause there. What a function returns is awaited, so the
  callback goes on only after \<^verbatim>\<open>map\<close> has started all callbacks: after a plain
  string first, and after a promise once it has settled. A provider that fails goes
  through \<open>handleError\<close>, whose exception rejects the callback's promise;
  \<^verbatim>\<open>Promise.all\<close> rejects with the rejection that comes first, while the other
  callbacks still run.
\<close>

text \<open>What a callback does, before its first \<^verbatim>\<open>await\<close> and after it.\<close>

datatype header_step = Skip | Write string | Fail thrown

fun during_map :: "token_get \<Rightarrow> header_step" where
  "during_map (Literal s) = Write s"
| "during_map (Getter (Throws e)) = Fail e"
| "during_map (Getter _) = Skip"

fun after_await :: "token_get \<Rightarrow> header_step" where
  "after_await (Getter (Returns s)) = Write s"
| "after_await (Getter (Promise n (Fulfilled s))) = Write s"
| "after_await (Getter (Promise n (Rejected e))) = Fail e"
| "after_await _ = Skip"

text \<open>
  When the awaited value of a provider is there: a plain string before every promise.
\<close>

fun settle_time :: "HeaderType \<Rightarrow> nat" where
  "settle_time token = (case getter token of Getter (Promise n _) \<Rightarrow> Suc n | _ \<Rightarrow> 0)"

text \<open>
  The given steps of the given callbacks, one after the other: the effects, the headers,
  and the first rejection if there is one.
\<close>

fun run_providers ::
  "HttpBase \<Rightarrow> IHttpOptions \<Rightarrow> (token_get \<Rightarrow> header_step) \<Rightarrow> HeaderType list
    \<Rightarrow> (string \<times> string) list \<Rightarrow> event list \<times> (string \<times> string) list \<times> thrown option" where
  "run_providers this options step [] hdrs = ([], hdrs, None)"
| "run_providers this options step (token # rest) hdrs =
     (case step (getter token) of
        Skip \<Rightarrow> run_providers this options step rest hdrs
      | Write s \<Rightarrow>
          run_providers this options step rest (AList.update (key token) s hdrs)
      | Fail e \<Rightarrow>
          (case handleError this e (opt_showError options)
                  (truthy_bool (skipServerErrorHandler options)) of
             (evs, exc) \<Rightarrow>
               (case run_providers this options step rest hdrs of
                  (evs', hdrs', _) \<Rightarrow> (evs @ evs', hdrs', Some exc))))"

definition resolveHeaders ::
  "HttpBase \<Rightarrow> string \<Rightarrow> IHttpOptions \<Rightarrow> HeaderType list \<Rightarrow> (string \<times> string) list
    \<Rightarrow> event list \<times> (string \<times> string) list \<times> thrown option" where
  "resolveHeaders this method options tokens hdrs =
     (let started =
            filter (\<lambda>token. (postOnly token \<and> method = ''post'') \<or> \<not> postOnly token) tokens
      in case run_providers this options during_map started hdrs of
           (evs1, hdrs1, rej1) \<Rightarrow>
             (case run_providers this options after_await (sort_key settle_time started) hdrs1 of
                (evs2, hdrs2, rej2) \<Rightarrow>
                  (evs1 @ evs2, hdrs2, (case rej1 of Some exc \<Rightarrow> Some exc | None \<Rightarrow> rej2))))"

text \<open>Line 110: \<^verbatim>\<open>options.timeout || this.config.timeout || 5000\<close>.\<close>

definition effective_timeout :: "HttpBase \<Rightarrow> IHttpOptions \<Rightarrow> nat" where
  "effective_timeout this options =
     or_num (opt_timeout options) (or_num (cfg_timeout (config this)) 5000)"

text \<open>\<^verbatim>\<open>url.endsWith('/')\<close>.\<close>

fun endsWith_slash :: "string \<Rightarrow> bool" where
  "endsWith_slash [] = False"
| "endsWith_slash s = (last s = CHR ''/'')"

text \<open>
  Lines 107 to 120: the request, with the headers the providers have set. The
  header object starts as \<^verbatim>\<open>{'Content-Type': 'application/json'}\<close>.
\<close>

definition request_url :: "HttpBase \<Rightarrow> string \<Rightarrow> string" where
  "request_url this url =
     serverFullPath this @ url @ (if endsWith_slash url then '''' else ''/'')"

definition httpOptions ::
  "HttpBase \<Rightarrow> string \<Rightarrow> string \<Rightarrow> json js \<Rightarrow> IHttpOptions \<Rightarrow> (string \<times> string) list
    \<Rightarrow> AxiosRequestConfig" where
  "httpOptions this method url dat options hdrs =
     \<lparr>req_method = method,
      req_url = request_url this url,
      req_timeout = effective_timeout this options,
      withCredentials = True,
      req_headers = hdrs,
      req_params = opt_params options,
      req_data = (if method = ''post'' then dat else Undefined)\<rparr>"

text \<open>Line 105: \<^verbatim>\<open>options.skipServerErrorHandler || false\<close>, stored back.\<close>

definition normalise_options :: "IHttpOptions \<Rightarrow> IHttpOptions" where
  "normalise_options options =
     options\<lparr>skipServerErrorHandler :=
       (if truthy_bool (skipServerErrorHandler options)
        then skipServerErrorHandler options else Val False)\<rparr>"

text \<open>
  Lines 138 to 151: the \<^verbatim>\<open>try\<close> block and its \<^verbatim>\<open>catch\<close>, without the
  loading indicator. A missing body makes the destructuring of line 142 raise a
  \<^verbatim>\<open>TypeError\<close>, which the \<^verbatim>\<open>catch\<close> clause receives like any other error.
\<close>

definition dispatch ::
  "HttpBase \<Rightarrow> IHttpOptions \<Rightarrow> axios_result \<Rightarrow> event list \<times> (thrown + json option)" where
  "dispatch this options res =
     (case res of
        Resolves (Val payload) \<Rightarrow>
          (if code payload \<noteq> ''OK'' then
             (case handleError this (ServerException payload) (opt_showError options)
                     (truthy_bool (skipServerErrorHandler options)) of
                (evs, exc) \<Rightarrow> (evs, Inl exc))
           else ([], Inr (data payload)))
      | Resolves _ \<Rightarrow>
          (case handleError this TypeError (opt_showError options)
                  (truthy_bool (skipServerErrorHandler options)) of
             (evs, exc) \<Rightarrow> (evs, Inl exc))
      | Rejects err \<Rightarrow>
          (case handleError this err (opt_showError options)
                  (truthy_bool (skipServerErrorHandler options)) of
             (evs, exc) \<Rightarrow> (evs, Inl exc)))"

text \<open>
  \<^verbatim>\<open>httpBase\<close>. The transport is a parameter: what \<^verbatim>\<open>Axios.request\<close> answers to
  a request. The result is the options object as the call leaves it, the effects in
  order, and the outcome of the promise: \<open>Inl\<close> a rejection, \<open>Inr\<close> the decoded
  payload.
\<close>

definition httpBase ::
  "HttpBase \<Rightarrow> string \<Rightarrow> string \<Rightarrow> json js \<Rightarrow> IHttpOptions
    \<Rightarrow> (AxiosRequestConfig \<Rightarrow> axios_result)
    \<Rightarrow> IHttpOptions \<times> event list \<times> (thrown + json option)" where
  "httpBase this method url dat options0 transport =
     (let options = normalise_options options0;
          providers = (case cfg_headers (config this) of Val hs \<Rightarrow> hs | _ \<Rightarrow> [])
      in case resolveHeaders this method options providers
                [(''Content-Type'', ''application/json'')] of
           (hevs, hdrs, Some exc) \<Rightarrow> (options, hevs, Inl exc)
         | (hevs, hdrs, None) \<Rightarrow>
             (let request = httpOptions this method url dat options hdrs in
              case dispatch this options (transport request) of
                (evs, outcome) \<Rightarrow>
                  (options,
                   hevs @ showLoading this (opt_loading options) @ [Requested request]
                     @ evs @ hideLoading this (opt_loading options),
                   outcome)))"

text \<open>The default value \<^verbatim>\<open>{}\<close> of the parameter \<^verbatim>\<open>options\<close>.\<close>

definition empty_options :: IHttpOptions where
  "empty_options =
     \<lparr>opt_timeout = Undefined, opt_params = Undefined, opt_showError = Undefined,
      opt_loading = Undefined, skipServerErrorHandler = Undefined\<rparr>"

definition get ::
  "HttpBase \<Rightarrow> string \<Rightarrow> IHttpOptions \<Rightarrow> (AxiosRequestConfig \<Rightarrow> axios_result)
    \<Rightarrow> IHttpOptions \<times> event list \<times> (thrown + json option)" where
  "get this url options transport = httpBase this ''get'' url Null options transport"

definition post ::
  "HttpBase \<Rightarrow> string \<Rightarrow> json js \<Rightarrow> IHttpOptions \<Rightarrow> (AxiosRequestConfig \<Rightarrow> axios_result)
    \<Rightarrow> IHttpOptions \<times> event list \<times> (thrown + json option)" where
  "post this url dat options transport = httpBase this ''post'' url dat options transport"

text \<open>The three components of a call's result.\<close>

definition options_after :: "IHttpOptions \<times> event list \<times> (thrown + json option) \<Rightarrow> IHttpOptions" where
  "options_after r = fst r"

definition events :: "IHttpOptions \<times> event list \<times> (thrown + json option) \<Rightarrow> event list" where
  "events r = fst (snd r)"

definition outcome :: "IHttpOptions \<times> event list \<times> (thrown + json option) \<Rightarrow> thrown + json option" where
  "outcome r = snd (snd r)"

section \<open>Reading a trace\<close>

fun is_loading :: "event \<Rightarrow> bool" where
  "is_loading (LoadingShown _) = True"
| "is_loading (LoadingHidden _) = True"
| "is_loading _ = False"

fun is_ServerErrorHandled :: "event \<Rightarrow> bool" where
  "is_ServerErrorHandled (ServerErrorHandled _) = True"
| "is_ServerErrorHandled _ = False"

text \<open>The events that error handling can cause: a display or the global handler.\<close>

fun error_handling :: "event \<Rightarrow> bool" where
  "error_handling (ErrorShown _ _) = True"
| "error_handling (ServerErrorHandled _) = True"
| "error_handling _ = False"

text \<open>The indicator object that an origin stands for in a given call.\<close>

fun indicator :: "HttpBase \<Rightarrow> IHttpOptions \<Rightarrow> origin \<Rightarrow> ILoading js" where
  "indicator this options PerCall = opt_loading options"
| "indicator this options Global = cfg_loading (config this)"

text \<open>The per-call indicator sets \<^verbatim>\<open>hide\<close> to a falsy value instead of leaving it out.\<close>

fun hide_is_null :: "ILoading js \<Rightarrow> bool" where
  "hide_is_null (Val l) = (loading_hide l = Null)"
| "hide_is_null _ = False"

text \<open>A provider's function fails with \<^verbatim>\<open>undefined\<close> or \<^verbatim>\<open>null\<close>.\<close>

fun nullish_failure :: "token_get \<Rightarrow> bool" where
  "nullish_failure (Getter (Throws Nullish)) = True"
| "nullish_failure (Getter (Promise n (Rejected Nullish))) = True"
| "nullish_failure _ = False"

text \<open>The URLs of the requests in a trace.\<close>

fun requested_urls :: "event list \<Rightarrow> string list" where
  "requested_urls [] = []"
| "requested_urls (Requested r # evs) = req_url r # requested_urls evs"
| "requested_urls (_ # evs) = requested_urls evs"

section \<open>Example inputs\<close>

text \<open>
  A host configuration for the base address \<^verbatim>\<open>http://api.test\<close> without a port,
  with a global error display, a global loading indicator and a global server-error
  handler; and envelopes a server may answer with.
\<close>

definition api_test :: IHttpGlobalConfig where
  "api_test =
     \<lparr>serverBase = ''http://api.test'', serverPort = PortUndefined, cfg_timeout = Undefined,
      cfg_showError = Val Fn,
      cfg_loading = Val \<lparr>loading_show = Val Fn, loading_hide = Val Fn\<rparr>,
      cfg_headers = Undefined, cfg_handleServerError = Val Fn\<rparr>"

definition denied :: ZyWebRes where
  "denied = \<lparr>code = ''DENIED'', msg = ''no access'', data = None\<rparr>"

definition users :: ZyWebRes where
  "users = \<lparr>code = ''OK'', msg = ''done'', data = Some ''[]''\<rparr>"

text \<open>An indicator that can be shown but not hidden.\<close>

definition show_only :: ILoading where
  "show_only = \<lparr>loading_show = Val Fn, loading_hide = Undefined\<rparr>"

text \<open>
  A header provider whose function returns a promise that is rejected without a reason
  (\<^verbatim>\<open>() => Promise.reject()\<close>).
\<close>

definition no_token :: HeaderType where
  "no_token =
     \<lparr>key = ''Authorization'', getter = Getter (Promise 0 (Rejected Nullish)),
      postOnly = False\<rparr>"

text \<open>The transport's error objects for the responses 503 and 404.\<close>

definition unavailable :: Err where
  "unavailable =
     \<lparr>err_response = Val \<lparr>status = Some 503\<rparr>, err_code = Some ''ERR_BAD_RESPONSE'',
      err_message = Some ''Request failed with status code 503''\<rparr>"

definition missing :: Err where
  "missing =
     \<lparr>err_response = Val \<lparr>status = Some 404\<rparr>, err_code = Some ''ERR_BAD_REQUEST'',
      err_message = Some ''Request failed with status code 404''\<rparr>"

section \<open>Structure of a call\<close>

lemma showError_error_handling: "list_all error_handling (showError this m se)"
  by (simp add: showError_def)

lemma handleError_error_handling:
  "handleError this err se skip = (evs, exc) \<Longrightarrow> list_all error_handling evs"
  by (cases err) (auto simp: showError_error_handling split: prod.splits)

lemma run_providers_error_handling:
  "run_providers this options step ps hdrs = (evs, hdrs', rej)
    \<Longrightarrow> list_all error_handling evs"
proof (induction ps arbitrary: hdrs evs hdrs' rej)
  case Nil
  then show ?case by simp
next
  case (Cons token rest)
  show ?case
  proof (cases "step (getter token)")
    case Skip
    with Cons show ?thesis by simp
  next
    case (Write s)
    with Cons show ?thesis by simp
  next
    case (Fail e)
    obtain evs1 exc where h: "handleError this e (opt_showError options)
        (truthy_bool (skipServerErrorHandler options)) = (evs1, exc)"
      by (cases "handleError this e (opt_showError options)
        (truthy_bool (skipServerErrorHandler options))")
    obtain evs2 hdrs2 rej2 where
      r: "run_providers this options step rest hdrs = (evs2, hdrs2, rej2)"
      by (cases "run_providers this options step rest hdrs")
    from Fail Cons.prems h r have "evs = evs1 @ evs2"
      by simp
    moreover have "list_all error_handling evs1"
      using h by (rule handleError_error_handling)
    moreover have "list_all error_handling evs2"
      using r by (rule Cons.IH)
    ultimately show ?thesis by simp
  qed
qed

text \<open>When no provider fails, the header phase has no effect to observe.\<close>

lemma run_providers_None_events:
  "run_providers this options step ps hdrs = (evs, hdrs', None) \<Longrightarrow> evs = []"
proof (induction ps arbitrary: hdrs)
  case Nil
  then show ?case by simp
next
  case (Cons token rest)
  show ?case
  proof (cases "step (getter token)")
    case Skip
    with Cons show ?thesis by simp
  next
    case (Write s)
    with Cons show ?thesis by simp
  next
    case (Fail e)
    with Cons.prems show ?thesis
      by (simp split: prod.splits del: handleError.simps)
  qed
qed

lemma resolveHeaders_Nil [simp]:
  "resolveHeaders this method' options [] hdrs = ([], hdrs, None)"
  by (simp add: resolveHeaders_def)

lemma resolveHeaders_phases:
  assumes "resolveHeaders this method' options ps hdrs = (evs, hdrs', rej)"
  obtains started evs1 hdrs1 rej1 evs2 rej2 where
    "set started \<subseteq> set ps"
    "run_providers this options during_map started hdrs = (evs1, hdrs1, rej1)"
    "run_providers this options after_await (sort_key settle_time started) hdrs1
       = (evs2, hdrs', rej2)"
    "evs = evs1 @ evs2"
    "rej = (case rej1 of Some exc \<Rightarrow> Some exc | None \<Rightarrow> rej2)"
proof -
  let ?started =
    "filter (\<lambda>token. (postOnly token \<and> method' = ''post'') \<or> \<not> postOnly token) ps"
  obtain evs1 hdrs1 rej1 where
    a: "run_providers this options during_map ?started hdrs = (evs1, hdrs1, rej1)"
    using prod_cases3 by blast
  obtain evs2 hdrs2 rej2 where
    b: "run_providers this options after_await (sort_key settle_time ?started) hdrs1
       = (evs2, hdrs2, rej2)"
    using prod_cases3 by blast
  from assms a b have c: "evs = evs1 @ evs2" "hdrs' = hdrs2"
    "rej = (case rej1 of Some exc \<Rightarrow> Some exc | None \<Rightarrow> rej2)"
    by (simp_all add: resolveHeaders_def)
  have "set ?started \<subseteq> set ps" by simp
  then show thesis
    using a b c that by blast
qed

lemma resolveHeaders_error_handling:
  assumes "resolveHeaders this method' options ps hdrs = (evs, hdrs', rej)"
  shows "list_all error_handling evs"
proof -
  from assms obtain started evs1 hdrs1 rej1 evs2 rej2 where
    "run_providers this options during_map started hdrs = (evs1, hdrs1, rej1)"
    "run_providers this options after_await (sort_key settle_time started) hdrs1
       = (evs2, hdrs', rej2)"
    "evs = evs1 @ evs2"
    by (rule resolveHeaders_phases)
  then show ?thesis
    using run_providers_error_handling by fastforce
qed

lemma resolveHeaders_None_events:
  assumes "resolveHeaders this method' options ps hdrs = (evs, hdrs', None)"
  shows "evs = []"
proof -
  from assms obtain started evs1 hdrs1 rej1 evs2 rej2 where
    a: "run_providers this options during_map started hdrs = (evs1, hdrs1, rej1)"
    and b: "run_providers this options after_await (sort_key settle_time started) hdrs1
       = (evs2, hdrs', rej2)"
    and e: "evs = evs1 @ evs2"
    and r: "None = (case rej1 of Some exc \<Rightarrow> Some exc | None \<Rightarrow> rej2)"
    by (rule resolveHeaders_phases)
  from r have "rej1 = None" "rej2 = None"
    by (auto split: option.splits)
  with a b e show ?thesis
    using run_providers_None_events by fastforce
qed

lemma dispatch_error_handling:
  "dispatch this options res = (evs, out) \<Longrightarrow> list_all error_handling evs"
  by (auto simp: dispatch_def split: axios_result.splits js.splits prod.splits if_splits
        simp del: handleError.simps dest: handleError_error_handling)

lemma error_handling_not_loading:
  "list_all error_handling evs \<Longrightarrow> filter is_loading evs = []"
  by (induction evs) (auto elim: error_handling.elims)

lemma error_handling_no_request:
  "list_all error_handling evs \<Longrightarrow> Requested req \<notin> set evs"
  by (induction evs) auto

lemma showLoading_no_request: "Requested req \<notin> set (showLoading this l)"
  by (simp add: showLoading_def)

lemma hideLoading_no_request: "Requested req \<notin> set (hideLoading this l)"
  by (simp add: hideLoading_def)

lemma normalise_options_simps [simp]:
  "opt_loading (normalise_options options) = opt_loading options"
  "opt_showError (normalise_options options) = opt_showError options"
  "opt_timeout (normalise_options options) = opt_timeout options"
  "opt_params (normalise_options options) = opt_params options"
  "truthy_bool (skipServerErrorHandler (normalise_options options))
     = truthy_bool (skipServerErrorHandler options)"
  by (simp_all add: normalise_options_def)

text \<open>
  A call either is rejected in the header phase, having caused error-handling events
  only, or dispatches one request between \<open>showLoading\<close> and \<open>hideLoading\<close>.
\<close>

lemma httpBase_cases:
  obtains
    (rejected) hevs exc where
      "list_all error_handling hevs"
      "httpBase this method url dat options transport = (normalise_options options, hevs, Inl exc)"
  | (dispatched) hdrs evs out where
      "dispatch this (normalise_options options)
         (transport (httpOptions this method url dat (normalise_options options) hdrs)) = (evs, out)"
      "httpBase this method url dat options transport =
         (normalise_options options,
          showLoading this (opt_loading options)
            @ [Requested (httpOptions this method url dat (normalise_options options) hdrs)]
            @ evs @ hideLoading this (opt_loading options),
          out)"
proof -
  obtain hevs hdrs rej where
    r: "resolveHeaders this method (normalise_options options)
          (case cfg_headers (config this) of Val hs \<Rightarrow> hs | _ \<Rightarrow> [])
          [(''Content-Type'', ''application/json'')] = (hevs, hdrs, rej)"
    using prod_cases3 by blast
  show thesis
  proof (cases rej)
    case (Some exc)
    have "list_all error_handling hevs"
      using r by (rule resolveHeaders_error_handling)
    moreover have "httpBase this method url dat options transport
        = (normalise_options options, hevs, Inl exc)"
      using r Some by (simp add: httpBase_def Let_def)
    ultimately show thesis by (rule rejected)
  next
    case None
    with r have e: "hevs = []"
      using resolveHeaders_None_events by blast
    obtain evs out where
      d: "dispatch this (normalise_options options)
         (transport (httpOptions this method url dat (normalise_options options) hdrs)) = (evs, out)"
      by (cases "dispatch this (normalise_options options)
         (transport (httpOptions this method url dat (normalise_options options) hdrs))")
    have "httpBase this method url dat options transport =
         (normalise_options options,
          showLoading this (opt_loading options)
            @ [Requested (httpOptions this method url dat (normalise_options options) hdrs)]
            @ evs @ hideLoading this (opt_loading options),
          out)"
      using r None e d by (simp add: httpBase_def Let_def)
    with d show thesis by (rule dispatched)
  qed
qed

lemma dispatch_logical_failure:
  "code payload \<noteq> ''OK'' \<Longrightarrow>
   dispatch this options (Resolves (Val payload)) =
     (showError this (msg payload) (opt_showError options)
        @ (if \<not> truthy_bool (skipServerErrorHandler options)
              \<and> truthy (cfg_handleServerError (config this))
           then [ServerErrorHandled payload] else []),
      Inl (ServerException payload))"
  by (simp add: dispatch_def)

text \<open>
  When the transport rejects a dispatched request, the \<^verbatim>\<open>catch\<close> clause hands the
  error to \<open>handleError\<close>: the call has its effects, between \<open>showLoading\<close> and
  \<open>hideLoading\<close>, and rejects with what it throws.
\<close>

lemma transport_rejection_handled:
  assumes "Requested req \<in> set (events (httpBase this method' url dat options transport))"
    and "transport req = Rejects err"
    and "handleError this err (opt_showError options)
           (truthy_bool (skipServerErrorHandler options)) = (hevs, exc)"
  shows "outcome (httpBase this method' url dat options transport) = Inl exc"
    and "events (httpBase this method' url dat options transport) =
      showLoading this (opt_loading options) @ [Requested req] @ hevs
        @ hideLoading this (opt_loading options)"
proof -
  have "outcome (httpBase this method' url dat options transport) = Inl exc
    \<and> events (httpBase this method' url dat options transport) =
      showLoading this (opt_loading options) @ [Requested req] @ hevs
        @ hideLoading this (opt_loading options)"
  proof (cases rule: httpBase_cases[of this method' url dat options transport])
    case (rejected hevs' exc')
    with assms(1) show ?thesis
      by (simp add: events_def error_handling_no_request)
  next
    case (dispatched hdrs evs out)
    have "list_all error_handling evs"
      using dispatched(1) by (rule dispatch_error_handling)
    with assms(1) dispatched(2)
    have req: "req = httpOptions this method' url dat (normalise_options options) hdrs"
      by (auto simp: events_def showLoading_no_request hideLoading_no_request
            error_handling_no_request)
    with dispatched(1) assms(2,3) have "evs = hevs" and "out = Inl exc"
      by (simp_all add: dispatch_def)
    with dispatched(2) req show ?thesis
      by (simp add: events_def outcome_def)
  qed
  then show "outcome (httpBase this method' url dat options transport) = Inl exc"
    and "events (httpBase this method' url dat options transport) =
      showLoading this (opt_loading options) @ [Requested req] @ hevs
        @ hideLoading this (opt_loading options)"
    by simp_all
qed

section \<open>Logical failures\<close>

text \<open>
  C2. Suppose a call dispatched the request \<open>req\<close> and the transport answered it with
  a well-formed envelope whose code is not \<^verbatim>\<open>"OK"\<close>. Then the call rejects with
  the \<open>ServerException\<close> that carries this envelope, hence its code and message. Its
  effects are, in order: \<open>showLoading\<close>, the request, the error display of
  \<open>showError\<close> with the envelope's message (which callback that is, if any, is the
  subject of C9), the global server-error handler with the envelope when it is
  configured and \<^verbatim>\<open>skipServerErrorHandler\<close> is not set, and \<open>hideLoading\<close>. So the
  global handler runs exactly once when it is configured and the flag is not set, and
  not at all otherwise.
\<close>

theorem logical_failure_rejects:
  assumes "Requested req \<in> set (events (httpBase this method url dat options transport))"
    and "transport req = Resolves (Val payload)"
    and "code payload \<noteq> ''OK''"
  shows "outcome (httpBase this method url dat options transport) = Inl (ServerException payload)
    \<and> events (httpBase this method url dat options transport) =
        showLoading this (opt_loading options) @ [Requested req]
          @ showError this (msg payload) (opt_showError options)
          @ (if \<not> truthy_bool (skipServerErrorHandler options)
                \<and> truthy (cfg_handleServerError (config this))
             then [ServerErrorHandled payload] else [])
          @ hideLoading this (opt_loading options)
    \<and> length (filter is_ServerErrorHandled
          (events (httpBase this method url dat options transport))) =
        (if \<not> truthy_bool (skipServerErrorHandler options)
            \<and> truthy (cfg_handleServerError (config this))
         then 1 else 0)"
proof (cases rule: httpBase_cases[of this "method" url dat options transport])
  case (rejected hevs exc)
  with assms(1) show ?thesis
    by (simp add: events_def error_handling_no_request)
next
  case (dispatched hdrs evs out)
  have "list_all error_handling evs"
    using dispatched(1) by (rule dispatch_error_handling)
  with assms(1) dispatched(2)
  have req: "req = httpOptions this method url dat (normalise_options options) hdrs"
    by (auto simp: events_def showLoading_no_request hideLoading_no_request
          error_handling_no_request)
  with dispatched(1) assms(2,3)
  have evs: "evs = showError this (msg payload) (opt_showError options)
        @ (if \<not> truthy_bool (skipServerErrorHandler options)
              \<and> truthy (cfg_handleServerError (config this))
           then [ServerErrorHandled payload] else [])"
    and out: "out = Inl (ServerException payload)"
    by (simp_all add: dispatch_logical_failure)
  have cnt: "filter is_ServerErrorHandled (showLoading this l) = []"
       "filter is_ServerErrorHandled (hideLoading this l) = []"
       "filter is_ServerErrorHandled (showError this m se) = []" for l m se
    by (simp_all add: showLoading_def hideLoading_def showError_def)
  show ?thesis
    using dispatched(2) req evs out
    by (simp add: events_def outcome_def cnt)
qed

theorem logical_failure_rejects_witness:
  "outcome (httpBase (constructor api_test) ''get'' ''/users'' Null empty_options
      (\<lambda>_. Resolves (Val denied))) = Inl (ServerException denied)
   \<and> events (httpBase (constructor api_test) ''get'' ''/users'' Null empty_options
      (\<lambda>_. Resolves (Val denied))) =
     [LoadingShown Global,
      Requested \<lparr>req_method = ''get'', req_url = ''http://api.test/users/'',
        req_timeout = 5000, withCredentials = True,
        req_headers = [(''Content-Type'', ''application/json'')],
        req_params = Undefined, req_data = Undefined\<rparr>,
      ErrorShown Global ''no access'', ServerErrorHandled denied, LoadingHidden Global]
   \<and> length (filter is_ServerErrorHandled
        (events (httpBase (constructor api_test) ''get'' ''/users'' Null empty_options
          (\<lambda>_. Resolves (Val denied))))) = 1"
proof -
  let ?req = "\<lparr>req_method = ''get'', req_url = ''http://api.test/users/'',
        req_timeout = 5000, withCredentials = True,
        req_headers = [(''Content-Type'', ''application/json'')],
        req_params = Undefined, req_data = Undefined\<rparr>"
  have ev: "Requested ?req \<in> set (events (httpBase (constructor api_test) ''get'' ''/users'' Null
      empty_options (\<lambda>_. Resolves (Val denied))))"
    by (simp add: events_def httpBase_def Let_def constructor_def api_test_def empty_options_def
          normalise_options_def httpOptions_def request_url_def effective_timeout_def
          dispatch_def denied_def showLoading_def hideLoading_def showError_def)
  have c: "code denied \<noteq> ''OK''" by (simp add: denied_def)
  show ?thesis
    using logical_failure_rejects[OF ev refl c]
    by (simp add: constructor_def api_test_def empty_options_def showLoading_def
          hideLoading_def showError_def denied_def)
qed

section \<open>Transport failures\<close>

lemma div_100_family:
  fixes s :: nat
  shows "500 \<le> s \<Longrightarrow> s < 600 \<Longrightarrow> s div 100 = 5"
    and "400 \<le> s \<Longrightarrow> s < 500 \<Longrightarrow> s div 100 = 4"
  by (simp_all add: div_nat_eqI)

lemma classify_status_family:
  assumes "err_response e = Val r" and "status r = Some s"
  shows "500 \<le> s \<Longrightarrow> s < 600 \<Longrightarrow> classify e = (''SERVER_INTERNAL_ERROR'', msg_server_internal)"
    and "400 \<le> s \<Longrightarrow> s < 500 \<Longrightarrow> classify e = (''URL_NOT_FOUND'', msg_not_found)"
  using assms by (simp_all add: classify_def div_100_family)

text \<open>
  An error object that the transport rejects a dispatched request with is classified:
  the call displays the chosen message through \<open>showError\<close> and rejects with the
  \<open>ServerException\<close> that carries the chosen code and message.
\<close>

lemma error_object_rejection:
  assumes "Requested req \<in> set (events (httpBase this method' url dat options transport))"
    and "transport req = Rejects (ErrorObject e)"
  shows "outcome (httpBase this method' url dat options transport) =
      Inl (ServerException \<lparr>code = fst (classify e), msg = snd (classify e), data = None\<rparr>)"
    and "events (httpBase this method' url dat options transport) =
      showLoading this (opt_loading options) @ [Requested req]
        @ showError this (snd (classify e)) (opt_showError options)
        @ hideLoading this (opt_loading options)"
proof -
  have h: "handleError this (ErrorObject e) (opt_showError options)
      (truthy_bool (skipServerErrorHandler options)) =
    (showError this (snd (classify e)) (opt_showError options),
     ServerException \<lparr>code = fst (classify e), msg = snd (classify e), data = None\<rparr>)"
    by (cases "classify e") simp
  show "outcome (httpBase this method' url dat options transport) =
      Inl (ServerException \<lparr>code = fst (classify e), msg = snd (classify e), data = None\<rparr>)"
    using assms h by (rule transport_rejection_handled(1))
  show "events (httpBase this method' url dat options transport) =
      showLoading this (opt_loading options) @ [Requested req]
        @ showError this (snd (classify e)) (opt_showError options)
        @ hideLoading this (opt_loading options)"
    using assms h by (rule transport_rejection_handled(2))
qed

text \<open>
  C6. Suppose a call dispatched the request \<open>req\<close> and the transport rejected it with
  an error object (not a \<open>ServerException\<close>) whose response carries the HTTP status
  \<open>s\<close>. If \<open>s\<close> is in the 5xx family, the call rejects with the
  \<open>ServerException\<close> with code \<^verbatim>\<open>SERVER_INTERNAL_ERROR\<close> and the server-internal
  message; if \<open>s\<close> is in the 4xx family, it rejects with the one with code
  \<^verbatim>\<open>URL_NOT_FOUND\<close> and the not-found message. In both cases this is the exception
  that \<open>handleError\<close> throws for such an error object wherever it is called, with any
  display option and any skip flag.
\<close>

theorem status_family_rejection:
  assumes "Requested req \<in> set (events (httpBase this method' url dat options transport))"
    and "transport req = Rejects (ErrorObject e)"
    and "err_response e = Val r" and "status r = Some s"
  shows "(500 \<le> s \<and> s < 600 \<longrightarrow>
            outcome (httpBase this method' url dat options transport) =
              Inl (ServerException
                \<lparr>code = ''SERVER_INTERNAL_ERROR'', msg = msg_server_internal, data = None\<rparr>)
            \<and> snd (handleError this (ErrorObject e) showErr skip) =
              ServerException
                \<lparr>code = ''SERVER_INTERNAL_ERROR'', msg = msg_server_internal, data = None\<rparr>)
       \<and> (400 \<le> s \<and> s < 500 \<longrightarrow>
            outcome (httpBase this method' url dat options transport) =
              Inl (ServerException
                \<lparr>code = ''URL_NOT_FOUND'', msg = msg_not_found, data = None\<rparr>)
            \<and> snd (handleError this (ErrorObject e) showErr skip) =
              ServerException \<lparr>code = ''URL_NOT_FOUND'', msg = msg_not_found, data = None\<rparr>)"
proof (intro conjI impI)
  assume "500 \<le> s \<and> s < 600"
  then have c: "classify e = (''SERVER_INTERNAL_ERROR'', msg_server_internal)"
    using assms(3,4) by (simp add: classify_status_family)
  show "outcome (httpBase this method' url dat options transport) =
      Inl (ServerException
        \<lparr>code = ''SERVER_INTERNAL_ERROR'', msg = msg_server_internal, data = None\<rparr>)"
    using error_object_rejection(1)[OF assms(1,2)] c by simp
  show "snd (handleError this (ErrorObject e) showErr skip) =
      ServerException
        \<lparr>code = ''SERVER_INTERNAL_ERROR'', msg = msg_server_internal, data = None\<rparr>"
    using c by simp
next
  assume "400 \<le> s \<and> s < 500"
  then have c: "classify e = (''URL_NOT_FOUND'', msg_not_found)"
    using assms(3,4) by (simp add: classify_status_family)
  show "outcome (httpBase this method' url dat options transport) =
      Inl (ServerException \<lparr>code = ''URL_NOT_FOUND'', msg = msg_not_found, data = None\<rparr>)"
    using error_object_rejection(1)[OF assms(1,2)] c by simp
  show "snd (handleError this (ErrorObject e) showErr skip) =
      ServerException \<lparr>code = ''URL_NOT_FOUND'', msg = msg_not_found, data = None\<rparr>"
    using c by simp
qed

theorem status_family_rejection_witness:
  "outcome (httpBase (constructor api_test) ''get'' ''/users'' Null empty_options
      (\<lambda>_. Rejects (ErrorObject unavailable))) =
     Inl (ServerException
       \<lparr>code = ''SERVER_INTERNAL_ERROR'', msg = msg_server_internal, data = None\<rparr>)
   \<and> outcome (httpBase (constructor api_test) ''post'' ''/users'' (Val ''{}'') empty_options
      (\<lambda>_. Rejects (ErrorObject missing))) =
     Inl (ServerException \<lparr>code = ''URL_NOT_FOUND'', msg = msg_not_found, data = None\<rparr>)"
proof -
  let ?get = "\<lparr>req_method = ''get'', req_url = ''http://api.test/users/'',
        req_timeout = 5000, withCredentials = True,
        req_headers = [(''Content-Type'', ''application/json'')],
        req_params = Undefined, req_data = Undefined\<rparr>"
  let ?post = "\<lparr>req_method = ''post'', req_url = ''http://api.test/users/'',
        req_timeout = 5000, withCredentials = True,
        req_headers = [(''Content-Type'', ''application/json'')],
        req_params = Undefined, req_data = Val ''{}''\<rparr>"
  have g: "Requested ?get \<in> set (events (httpBase (constructor api_test) ''get'' ''/users'' Null
      empty_options (\<lambda>_. Rejects (ErrorObject unavailable))))"
    by (simp add: events_def httpBase_def Let_def constructor_def api_test_def empty_options_def
          normalise_options_def httpOptions_def request_url_def effective_timeout_def
          split: prod.splits)
  have p: "Requested ?post \<in> set (events (httpBase (constructor api_test) ''post'' ''/users''
      (Val ''{}'') empty_options (\<lambda>_. Rejects (ErrorObject missing))))"
    by (simp add: events_def httpBase_def Let_def constructor_def api_test_def empty_options_def
          normalise_options_def httpOptions_def request_url_def effective_timeout_def
          split: prod.splits)
  have u: "err_response unavailable = Val \<lparr>status = Some 503\<rparr>"
    and m: "err_response missing = Val \<lparr>status = Some 404\<rparr>"
    by (simp_all add: unavailable_def missing_def)
  have s5: "status \<lparr>status = Some 503\<rparr> = Some (503::nat)"
    and s4: "status \<lparr>status = Some 404\<rparr> = Some (404::nat)"
    by simp_all
  show ?thesis
    using status_family_rejection[OF g refl u s5] status_family_rejection[OF p refl m s4]
    by simp
qed

text \<open>
  An error object without an HTTP status (no response, or a response without status)
  is classified by its code and its message, in this order; the error object itself is
  not what the call rejects with.
\<close>

lemma classify_without_status:
  assumes "response_status e = None"
  shows "classify e =
    (if err_code e = Some ''ECONNABORTED'' then (''ECONNABORTED'', msg_timeout)
     else if err_message e = Some ''Network Error'' then (''NETWORK_ERROR'', msg_no_network)
     else (''UNKNOWN_ERROR'', msg_unknown))"
  using assms by (simp add: classify_def)

lemma without_status_rejection:
  assumes "Requested req \<in> set (events (httpBase this method' url dat options transport))"
    and "transport req = Rejects (ErrorObject e)"
    and "response_status e = None"
  shows "outcome (httpBase this method' url dat options transport) =
    Inl (ServerException
      (if err_code e = Some ''ECONNABORTED''
         then \<lparr>code = ''ECONNABORTED'', msg = msg_timeout, data = None\<rparr>
       else if err_message e = Some ''Network Error''
         then \<lparr>code = ''NETWORK_ERROR'', msg = msg_no_network, data = None\<rparr>
       else \<lparr>code = ''UNKNOWN_ERROR'', msg = msg_unknown, data = None\<rparr>))"
  using error_object_rejection(1)[OF assms(1,2)] classify_without_status[OF assms(3)]
  by simp

text \<open>
  C7. The claim holds for every error object (\<open>without_status_rejection\<close>), but not
  for every failure without status and without envelope: a failure that is
  \<^verbatim>\<open>undefined\<close> or \<^verbatim>\<open>null\<close> has neither, its code is not \<^verbatim>\<open>ECONNABORTED\<close> and
  its message is not \<^verbatim>\<open>Network Error\<close>, yet the call does not reject with
  \<^verbatim>\<open>UNKNOWN_ERROR\<close>. It rejects with the \<^verbatim>\<open>TypeError\<close> that \<open>handleError\<close> raises
  on reading \<^verbatim>\<open>err.response\<close>, both when a header provider's promise is rejected
  without a reason and when the transport rejects without a reason.
\<close>

theorem nullish_failure_not_unknown_error:
  "outcome (post (constructor (api_test\<lparr>cfg_headers := Val [no_token]\<rparr>)) ''/users''
      (Val ''{}'') empty_options (\<lambda>_. Resolves (Val users))) = Inl TypeError
   \<and> outcome (get (constructor api_test) ''/users'' empty_options (\<lambda>_. Rejects Nullish))
       = Inl TypeError
   \<and> TypeError \<noteq> ServerException \<lparr>code = ''UNKNOWN_ERROR'', msg = msg_unknown, data = None\<rparr>"
  by (simp add: outcome_def get_def post_def httpBase_def Let_def constructor_def
        api_test_def empty_options_def normalise_options_def no_token_def TypeError_def
        resolveHeaders_def dispatch_def split: prod.splits)

text \<open>
  The global server-error handler runs for a \<open>ServerException\<close> only: among the
  effects of \<open>handleError\<close> it appears once, with the envelope, when the value is a
  \<open>ServerException\<close>, the handler is configured and the skip flag is not set, and
  not at all in every other case. So no call routes a transport failure to it.
\<close>

lemma server_handler_only_for_ServerException:
  "filter is_ServerErrorHandled (fst (handleError this err showErr skip)) =
     (case err of
        ServerException p \<Rightarrow>
          (if \<not> skip \<and> truthy (cfg_handleServerError (config this))
           then [ServerErrorHandled p] else [])
      | _ \<Rightarrow> [])"
proof -
  have "filter is_ServerErrorHandled (showError this m se) = []" for m se
    by (simp add: showError_def)
  then show ?thesis
    by (cases err) (simp_all split: prod.splits)
qed

lemma transport_failure_not_routed:
  assumes "Requested req \<in> set (events (httpBase this method' url dat options transport))"
    and "transport req = Rejects err"
    and "\<not> is_ServerException err"
  shows "filter is_ServerErrorHandled
    (events (httpBase this method' url dat options transport)) = []"
proof -
  obtain hevs exc where h: "handleError this err (opt_showError options)
      (truthy_bool (skipServerErrorHandler options)) = (hevs, exc)"
    by (cases "handleError this err (opt_showError options)
      (truthy_bool (skipServerErrorHandler options))")
  have "filter is_ServerErrorHandled (fst (handleError this err (opt_showError options)
      (truthy_bool (skipServerErrorHandler options)))) = []"
    unfolding server_handler_only_for_ServerException
    using assms(3) by (cases err) simp_all
  then have "filter is_ServerErrorHandled hevs = []"
    unfolding h by simp
  moreover have "filter is_ServerErrorHandled (showLoading this l) = []"
    "filter is_ServerErrorHandled (hideLoading this l) = []" for l
    by (simp_all add: showLoading_def hideLoading_def)
  ultimately show ?thesis
    using transport_rejection_handled(2)[OF assms(1,2) h] by simp
qed

text \<open>
  C8. The half of the claim about the global handler holds
  (\<open>transport_failure_not_routed\<close>), and a transport failure that is an error object
  is displayed (\<open>error_object_rejection\<close>). But a failure that is \<^verbatim>\<open>undefined\<close> or
  \<^verbatim>\<open>null\<close> is not displayed, although a per-call display function is supplied and a
  global one is configured: when the transport rejects without a reason, the effects of
  the call are \<open>showLoading\<close>, the request and \<open>hideLoading\<close>, and when a header
  provider's promise is rejected without a reason, the call has no effect at all.
\<close>

theorem nullish_failure_not_displayed:
  "events (get (constructor api_test) ''/users'' (empty_options\<lparr>opt_showError := Val Fn\<rparr>)
      (\<lambda>_. Rejects Nullish)) =
     [LoadingShown Global,
      Requested \<lparr>req_method = ''get'', req_url = ''http://api.test/users/'',
        req_timeout = 5000, withCredentials = True,
        req_headers = [(''Content-Type'', ''application/json'')],
        req_params = Undefined, req_data = Undefined\<rparr>,
      LoadingHidden Global]
   \<and> events (get (constructor (api_test\<lparr>cfg_headers := Val [no_token]\<rparr>)) ''/users''
      (empty_options\<lparr>opt_showError := Val Fn\<rparr>) (\<lambda>_. Resolves (Val users))) = []
   \<and> truthy (cfg_showError (config (constructor api_test)))"
  by (simp add: events_def get_def httpBase_def Let_def constructor_def api_test_def
        empty_options_def normalise_options_def no_token_def resolveHeaders_def dispatch_def
        httpOptions_def request_url_def effective_timeout_def showLoading_def hideLoading_def
        split: prod.splits)

section \<open>Error display\<close>

text \<open>
  C9. \<open>showError\<close> distinguishes three states of the per-call option. When it is a
  function, that function alone is called with the message. When it is
  \<^verbatim>\<open>undefined\<close>, the global \<^verbatim>\<open>showError\<close> is called with the message if one is
  configured, and nothing is called otherwise. When it is defined but falsy, nothing is
  called, whether or not a global \<^verbatim>\<open>showError\<close> is configured.
\<close>

theorem showError_three_way:
  "showError this m (Val f) = [ErrorShown PerCall m]
   \<and> showError this m Undefined =
       (if truthy (cfg_showError (config this)) then [ErrorShown Global m] else [])
   \<and> showError this m Null = []"
  by (simp add: showError_def)

section \<open>The options object\<close>

text \<open>
  C10. \<open>httpBase\<close>, and with it \<open>get\<close> and \<open>post\<close>, leaves the caller's options
  object changed in one field only: \<^verbatim>\<open>skipServerErrorHandler\<close> holds \<^verbatim>\<open>false\<close>
  when it was absent or falsy and keeps its value \<^verbatim>\<open>true\<close> otherwise. This holds for
  every outcome of the call, also when it is rejected before a request is dispatched.
\<close>

theorem httpBase_overwrites_skip_only:
  "options_after (httpBase this method url dat options transport) =
     options\<lparr>skipServerErrorHandler := Val (truthy_bool (skipServerErrorHandler options))\<rparr>
   \<and> options_after (get this url options transport) =
     options\<lparr>skipServerErrorHandler := Val (truthy_bool (skipServerErrorHandler options))\<rparr>
   \<and> options_after (post this url dat options transport) =
     options\<lparr>skipServerErrorHandler := Val (truthy_bool (skipServerErrorHandler options))\<rparr>"
proof -
  have n: "normalise_options options =
      options\<lparr>skipServerErrorHandler := Val (truthy_bool (skipServerErrorHandler options))\<rparr>"
    by (cases "skipServerErrorHandler options") (simp_all add: normalise_options_def)
  have "options_after (httpBase this m url d options transport) = normalise_options options"
    for m d
    by (cases rule: httpBase_cases[of this m url d options transport])
       (simp_all add: options_after_def)
  then show ?thesis by (simp add: n get_def post_def)
qed

section \<open>Rejections\<close>

lemma handleError_structured:
  "err \<noteq> Nullish \<Longrightarrow> handleError this err se skip = (evs, exc) \<Longrightarrow> is_ServerException exc"
  by (cases err) (auto split: prod.splits)

lemma run_providers_structured:
  "run_providers this options step ps hdrs = (evs, hdrs', Some exc)
    \<Longrightarrow> list_all (\<lambda>t. step (getter t) \<noteq> Fail Nullish) ps
    \<Longrightarrow> is_ServerException exc"
proof (induction ps arbitrary: hdrs evs hdrs')
  case Nil
  then show ?case by simp
next
  case (Cons token rest)
  from Cons.prems(2)
  have r: "list_all (\<lambda>t. step (getter t) \<noteq> Fail Nullish) rest"
    and t: "step (getter token) \<noteq> Fail Nullish"
    by simp_all
  show ?case
  proof (cases "step (getter token)")
    case Skip
    with Cons.prems(1) Cons.IH[OF _ r] show ?thesis by simp
  next
    case (Write s)
    with Cons.prems(1) Cons.IH[OF _ r] show ?thesis by simp
  next
    case (Fail e)
    with t have ne: "e \<noteq> Nullish" by simp
    obtain evs1 exc1 where h: "handleError this e (opt_showError options)
        (truthy_bool (skipServerErrorHandler options)) = (evs1, exc1)"
      by (cases "handleError this e (opt_showError options)
        (truthy_bool (skipServerErrorHandler options))")
    from Fail Cons.prems(1) h have "exc = exc1"
      by (simp split: prod.splits)
    with handleError_structured[OF ne h] show ?thesis by simp
  qed
qed

lemma step_not_nullish:
  "\<not> nullish_failure g \<Longrightarrow> during_map g \<noteq> Fail Nullish"
  "\<not> nullish_failure g \<Longrightarrow> after_await g \<noteq> Fail Nullish"
  by (induction g rule: nullish_failure.induct) simp_all

lemma resolveHeaders_structured:
  assumes "resolveHeaders this method' options ps hdrs = (evs, hdrs', Some exc)"
    and "list_all (\<lambda>t. \<not> nullish_failure (getter t)) ps"
  shows "is_ServerException exc"
proof -
  from assms(1) obtain started evs1 hdrs1 rej1 evs2 rej2 where
    s: "set started \<subseteq> set ps"
    and a: "run_providers this options during_map started hdrs = (evs1, hdrs1, rej1)"
    and b: "run_providers this options after_await (sort_key settle_time started) hdrs1
       = (evs2, hdrs', rej2)"
    and r: "Some exc = (case rej1 of Some exc \<Rightarrow> Some exc | None \<Rightarrow> rej2)"
    by (rule resolveHeaders_phases)
  from s assms(2) have "list_all (\<lambda>t. during_map (getter t) \<noteq> Fail Nullish) started"
    and "list_all (\<lambda>t. after_await (getter t) \<noteq> Fail Nullish) (sort_key settle_time started)"
    by (auto simp: list_all_iff step_not_nullish)
  with a b r show ?thesis
    by (cases rej1) (auto dest: run_providers_structured)
qed

lemma dispatch_structured:
  "res \<noteq> Rejects Nullish \<Longrightarrow> dispatch this options res = (evs, Inl exc)
    \<Longrightarrow> is_ServerException exc"
  by (auto simp: dispatch_def TypeError_def classify_def split: axios_result.splits js.splits
        prod.splits if_splits simp del: handleError.simps
        dest: handleError_structured[rotated])

text \<open>
  Every rejection of a call is a \<open>ServerException\<close>, as long as no header provider
  fails with \<^verbatim>\<open>undefined\<close> or \<^verbatim>\<open>null\<close> and the transport does not reject with
  one of them.
\<close>

lemma rejection_structured:
  assumes "list_all (\<lambda>t. \<not> nullish_failure (getter t))
      (case cfg_headers (config this) of Val hs \<Rightarrow> hs | _ \<Rightarrow> [])"
    and "\<And>req. transport req \<noteq> Rejects Nullish"
    and "outcome (httpBase this method' url dat options transport) = Inl exc"
  shows "is_ServerException exc"
proof -
  obtain hevs hdrs rej where
    r: "resolveHeaders this method' (normalise_options options)
          (case cfg_headers (config this) of Val hs \<Rightarrow> hs | _ \<Rightarrow> [])
          [(''Content-Type'', ''application/json'')] = (hevs, hdrs, rej)"
    using prod_cases3 by blast
  show ?thesis
  proof (cases rej)
    case (Some exc')
    with r assms(3) have "exc' = exc"
      by (simp add: httpBase_def Let_def outcome_def)
    with r Some assms(1) show ?thesis
      using resolveHeaders_structured by blast
  next
    case None
    obtain evs out where
      d: "dispatch this (normalise_options options)
         (transport (httpOptions this method' url dat (normalise_options options) hdrs)) = (evs, out)"
      by (cases "dispatch this (normalise_options options)
         (transport (httpOptions this method' url dat (normalise_options options) hdrs))")
    with r None assms(3) have "out = Inl exc"
      by (simp add: httpBase_def Let_def outcome_def)
    with d assms(2) show ?thesis
      using dispatch_structured by blast
  qed
qed

text \<open>
  C1. The outcome of a call is a sum: a rejection or the decoded payload, never both.
  But a rejection need not be a \<open>ServerException\<close>. With a header provider whose
  promise is rejected without a reason, \<open>get('/users')\<close> is rejected with the
  \<^verbatim>\<open>TypeError\<close> that \<open>handleError\<close> raises on reading \<^verbatim>\<open>err.response\<close>; no
  request is dispatched and nothing is displayed.
\<close>

theorem nullish_rejection_escapes:
  "outcome (get (constructor (api_test\<lparr>cfg_headers := Val [no_token]\<rparr>)) ''/users''
      empty_options (\<lambda>_. Resolves (Val users))) = Inl TypeError
   \<and> \<not> is_ServerException TypeError
   \<and> events (get (constructor (api_test\<lparr>cfg_headers := Val [no_token]\<rparr>)) ''/users''
      empty_options (\<lambda>_. Resolves (Val users))) = []"
  by (simp add: outcome_def events_def get_def httpBase_def Let_def constructor_def
        api_test_def empty_options_def normalise_options_def no_token_def TypeError_def
        resolveHeaders_def)

section \<open>The request URL\<close>

lemma requested_urls_append:
  "requested_urls (xs @ ys) = requested_urls xs @ requested_urls ys"
  by (induction xs rule: requested_urls.induct) simp_all

lemma requested_urls_error_handling:
  "list_all error_handling evs \<Longrightarrow> requested_urls evs = []"
  by (induction evs rule: requested_urls.induct) simp_all

lemma requested_urls_loading:
  "requested_urls (showLoading this l) = []" "requested_urls (hideLoading this l) = []"
  by (simp_all add: showLoading_def hideLoading_def)

lemma endsWith_slash_append:
  "endsWith_slash (s @ ''/'')" "endsWith_slash p \<Longrightarrow> endsWith_slash (s @ p)"
  by (cases s; cases p; simp)+

text \<open>
  C3, as stated, fails. With a port configured, \<open>get('/users')\<close> requests a URL with
  two slashes between base and path; without a port, \<open>get('users')\<close> requests a URL
  with no slash between them.
\<close>

theorem request_url_double_and_missing_slash:
  "requested_urls (events (get (constructor (api_test\<lparr>serverPort := PortNumber 8080\<rparr>))
      ''/users'' empty_options (\<lambda>_. Resolves (Val users)))) = [''http://api.test:8080//users/'']
   \<and> requested_urls (events (get (constructor api_test)
      ''users'' empty_options (\<lambda>_. Resolves (Val users)))) = [''http://api.testusers/'']"
  by (simp add: events_def get_def httpBase_def Let_def constructor_def api_test_def
        empty_options_def normalise_options_def httpOptions_def request_url_def
        effective_timeout_def dispatch_def users_def showLoading_def hideLoading_def)

text \<open>
  C3, amended. The request URL is the concatenation of three parts: the prefix computed
  by the constructor (the base alone when no port is configured, else the base, a colon,
  the port and a slash), the path as given, and one slash when the path does not end
  with one. So the URL always ends with a slash, and nothing is inserted or removed
  between base and path. In particular \<open>get('/users')\<close> against the base
  \<^verbatim>\<open>http://api.test\<close> with no port requests \<^verbatim>\<open>http://api.test/users/\<close>, whatever
  the options and whatever the transport answers.
\<close>

theorem request_url_concatenation:
  "req_url (httpOptions (constructor cfg) method' path dat options hdrs) =
     (if truthy_port (serverPort cfg)
      then serverBase cfg @ '':'' @ port_text (serverPort cfg) @ ''/''
      else serverBase cfg)
     @ path @ (if endsWith_slash path then '''' else ''/'')
   \<and> endsWith_slash (req_url (httpOptions (constructor cfg) method' path dat options hdrs))
   \<and> requested_urls (events (get (constructor api_test) ''/users'' options transport))
       = [''http://api.test/users/'']"
proof -
  have a: "req_url (httpOptions (constructor cfg) method' path dat options hdrs) =
     (if truthy_port (serverPort cfg)
      then serverBase cfg @ '':'' @ port_text (serverPort cfg) @ ''/''
      else serverBase cfg)
     @ path @ (if endsWith_slash path then '''' else ''/'')"
    by (simp add: httpOptions_def request_url_def constructor_def)
  have b: "endsWith_slash (req_url (httpOptions (constructor cfg) method' path dat options hdrs))"
    unfolding a by (simp add: endsWith_slash_append)
  have c: "requested_urls (events (get (constructor api_test) ''/users'' options transport))
       = [''http://api.test/users/'']"
  proof -
    let ?hb = "constructor api_test"
    let ?req = "httpOptions ?hb ''get'' ''/users'' Null (normalise_options options)
        [(''Content-Type'', ''application/json'')]"
    obtain evs out where
      d: "dispatch ?hb (normalise_options options) (transport ?req) = (evs, out)"
      by (cases "dispatch ?hb (normalise_options options) (transport ?req)")
    have h: "cfg_headers (config ?hb) = Undefined"
      by (simp add: constructor_def api_test_def)
    have "requested_urls evs = []"
      using d dispatch_error_handling requested_urls_error_handling by blast
    moreover have "req_url ?req = ''http://api.test/users/''"
      by (simp add: httpOptions_def request_url_def constructor_def api_test_def)
    ultimately show ?thesis
      using d by (simp add: get_def events_def httpBase_def Let_def h requested_urls_append
            requested_urls_loading)
  qed
  from a b c show ?thesis by blast
qed

section \<open>The loading indicator\<close>

lemma showLoading_loading: "filter is_loading (showLoading this l) = showLoading this l"
  by (simp add: showLoading_def)

lemma hideLoading_loading: "filter is_loading (hideLoading this l) = hideLoading this l"
  by (simp add: hideLoading_def)

lemma error_handling_no_show: "list_all error_handling evs \<Longrightarrow> LoadingShown w \<notin> set evs"
  by (induction evs) auto

lemma hideLoading_no_show: "LoadingShown w \<notin> set (hideLoading this l)"
  by (simp add: hideLoading_def)

lemma hide_after_show:
  assumes "LoadingShown w \<in> set (showLoading this (opt_loading options))"
    and "has_hide (indicator this options w)"
  shows "showLoading this (opt_loading options) @ hideLoading this (opt_loading options) =
    [LoadingShown w, LoadingHidden (if has_hide (opt_loading options) then PerCall else Global)]"
proof (cases "has_show (opt_loading options)")
  case True
  with assms(1) have "w = PerCall" by (simp add: showLoading_def)
  with assms(2) True show ?thesis by (simp add: showLoading_def hideLoading_def)
next
  case False
  with assms(1) have g: "w = Global"
    and c: "opt_loading options = Undefined \<or> show_undefined (opt_loading options)"
    by (auto simp: showLoading_def split: if_splits)
  from g assms(1) False have s: "showLoading this (opt_loading options) = [LoadingShown Global]"
    by (auto simp: showLoading_def split: if_splits)
  from g assms(2) c show ?thesis unfolding s
    by (auto simp: hideLoading_def)
qed

text \<open>
  C4, as stated, fails. A per-call indicator that has \<^verbatim>\<open>show\<close> but no \<^verbatim>\<open>hide\<close>,
  with no global indicator configured, is shown and never hidden, whether the call
  succeeds or is rejected.
\<close>

theorem show_without_hide:
  "filter is_loading (events (get (constructor (api_test\<lparr>cfg_loading := Undefined\<rparr>)) ''/users''
      (empty_options\<lparr>opt_loading := Val show_only\<rparr>) (\<lambda>_. Resolves (Val users))))
     = [LoadingShown PerCall]
   \<and> filter is_loading (events (get (constructor (api_test\<lparr>cfg_loading := Undefined\<rparr>)) ''/users''
      (empty_options\<lparr>opt_loading := Val show_only\<rparr>) (\<lambda>_. Resolves (Val denied))))
     = [LoadingShown PerCall]"
  by (simp add: events_def get_def httpBase_def Let_def constructor_def api_test_def
        empty_options_def normalise_options_def httpOptions_def request_url_def
        effective_timeout_def dispatch_def users_def denied_def showLoading_def hideLoading_def
        showError_def show_only_def)

text \<open>
  C4, amended. Take any call, with any per-call and global indicators, each possibly
  lacking \<^verbatim>\<open>show\<close> or \<^verbatim>\<open>hide\<close>, where the per-call indicator does not set
  \<^verbatim>\<open>hide\<close> to a falsy value. If the call invokes the \<^verbatim>\<open>show\<close> of an indicator and
  that same indicator also has \<^verbatim>\<open>hide\<close>, then the loading events of the call are
  exactly that one \<^verbatim>\<open>show\<close> followed by one \<^verbatim>\<open>hide\<close>: the per-call indicator's
  when it has one, the global indicator's otherwise. This holds for every answer of the
  transport, so on the success path and on the rejection path alike.
\<close>

theorem loading_hide_follows_show:
  assumes "LoadingShown w \<in> set (events (httpBase this method' url dat options transport))"
    and "has_hide (indicator this options w)"
    and "\<not> hide_is_null (opt_loading options)"
  shows "filter is_loading (events (httpBase this method' url dat options transport)) =
    [LoadingShown w, LoadingHidden (if has_hide (opt_loading options) then PerCall else Global)]"
proof (cases rule: httpBase_cases[of this method' url dat options transport])
  case (rejected hevs exc)
  with assms(1) show ?thesis
    by (simp add: events_def error_handling_no_show)
next
  case (dispatched hdrs evs out)
  have e: "list_all error_handling evs"
    using dispatched(1) by (rule dispatch_error_handling)
  with assms(1) dispatched(2)
  have "LoadingShown w \<in> set (showLoading this (opt_loading options))"
    by (auto simp: events_def error_handling_no_show hideLoading_no_show)
  then have "showLoading this (opt_loading options) @ hideLoading this (opt_loading options) =
    [LoadingShown w, LoadingHidden (if has_hide (opt_loading options) then PerCall else Global)]"
    using assms(2) by (rule hide_after_show)
  moreover have "filter is_loading (events (httpBase this method' url dat options transport)) =
      showLoading this (opt_loading options) @ hideLoading this (opt_loading options)"
    using dispatched(2) e
    by (simp add: events_def showLoading_loading hideLoading_loading error_handling_not_loading)
  ultimately show ?thesis by simp
qed

theorem loading_hide_follows_show_witness:
  "filter is_loading (events (httpBase (constructor api_test) ''get'' ''/users'' Null
      empty_options (\<lambda>_. Resolves (Val users)))) = [LoadingShown Global, LoadingHidden Global]
   \<and> filter is_loading (events (httpBase (constructor api_test) ''post'' ''/users'' (Val ''{}'')
      (empty_options\<lparr>opt_loading := Val \<lparr>loading_show = Val Fn, loading_hide = Val Fn\<rparr>\<rparr>)
      (\<lambda>_. Resolves (Val denied)))) = [LoadingShown PerCall, LoadingHidden PerCall]"
proof -
  have s1: "LoadingShown Global \<in> set (events (httpBase (constructor api_test) ''get'' ''/users''
      Null empty_options (\<lambda>_. Resolves (Val users))))"
    by (simp add: events_def httpBase_def Let_def constructor_def api_test_def
        empty_options_def normalise_options_def showLoading_def split: prod.splits)
  have h1: "has_hide (indicator (constructor api_test) empty_options Global)"
    by (simp add: constructor_def api_test_def)
  have n1: "\<not> hide_is_null (opt_loading empty_options)"
    by (simp add: empty_options_def)
  have s2: "LoadingShown PerCall \<in> set (events (httpBase (constructor api_test) ''post''
      ''/users'' (Val ''{}'')
      (empty_options\<lparr>opt_loading := Val \<lparr>loading_show = Val Fn, loading_hide = Val Fn\<rparr>\<rparr>)
      (\<lambda>_. Resolves (Val denied))))"
    by (simp add: events_def httpBase_def Let_def constructor_def api_test_def
        empty_options_def normalise_options_def showLoading_def split: prod.splits)
  have h2: "has_hide (indicator (constructor api_test)
      (empty_options\<lparr>opt_loading := Val \<lparr>loading_show = Val Fn, loading_hide = Val Fn\<rparr>\<rparr>)
      PerCall)"
    by simp
  have n2: "\<not> hide_is_null (opt_loading
      (empty_options\<lparr>opt_loading := Val \<lparr>loading_show = Val Fn, loading_hide = Val Fn\<rparr>\<rparr>))"
    by simp
  show ?thesis
    using loading_hide_follows_show[OF s1 h1 n1] loading_hide_follows_show[OF s2 h2 n2]
    by (simp add: empty_options_def)
qed

text \<open>
  C5. For \<^verbatim>\<open>show\<close> the fallback is as claimed, but \<open>hideLoading\<close> decides its
  fallback by the presence of \<^verbatim>\<open>show\<close>, not of \<^verbatim>\<open>hide\<close>. With a global indicator
  that has both methods and a per-call indicator that has \<^verbatim>\<open>show\<close> only, the
  per-call \<^verbatim>\<open>show\<close> is called and then no \<^verbatim>\<open>hide\<close> at all, although the per-call
  indicator lacks \<^verbatim>\<open>hide\<close> and the global one has it.
\<close>

theorem hideLoading_tests_show:
  "showLoading (constructor api_test) (Val show_only) = [LoadingShown PerCall]
   \<and> hideLoading (constructor api_test) (Val show_only) = []
   \<and> has_hide (cfg_loading (config (constructor api_test)))
   \<and> \<not> has_hide (Val show_only)"
  by (simp add: showLoading_def hideLoading_def constructor_def api_test_def show_only_def)

end
